theory Spec2Isabelle
  imports Complex_Main
begin

section \<open>Data model\<close>

text \<open>
  The analysis functions of the repository (\<^verbatim>\<open>src/analysis.js\<close>, \<^verbatim>\<open>src/utils.js\<close>,
  \<^verbatim>\<open>src/main.ts\<close>, \<^verbatim>\<open>src/main.js\<close>) work on decoded FIT messages. The TypeScript
  interfaces of \<^verbatim>\<open>main.ts\<close> give the shape of the data:
  \<^item> an optional field (\<^verbatim>\<open>timestamp?: Date\<close>) is an \<open>option\<close>, \<open>None\<close> for an absent
    (\<^verbatim>\<open>undefined\<close>) field;
  \<^item> a \<^verbatim>\<open>Date\<close> is its time value, an integral number of milliseconds: \<open>int\<close>;
  \<^item> a \<^verbatim>\<open>number\<close> is an exact rational: \<open>rat\<close>. JavaScript numbers are IEEE doubles;
    rounding error, \<^verbatim>\<open>NaN\<close> and infinities as field values are outside this model.
    The \<^verbatim>\<open>NaN\<close> that the code itself produces by subtracting an absent timestamp
    is modelled: such a difference is \<open>None\<close> and every comparison with it is false.
  Isabelle's record fields are global names, so the fields that several interfaces
  share carry a prefix: \<open>sessStartTime\<close> and \<open>sessTotalDistance\<close> of a session,
  \<open>actStartTime\<close> and \<open>actEndTime\<close> of the activity times, \<open>gapStartTime\<close>,
  \<open>gapEndTime\<close>, \<open>gapStartDistance\<close> and \<open>gapEndDistance\<close> of a gap. A gap and a
  period are built only from present timestamps, so their times are dates. The optional
  \<open>isGap\<close> and \<open>gapData\<close> of a period are absent on a slow period.
\<close>

record FitRecord =
  timestamp :: "int option"
  speed :: "rat option"
  enhancedSpeed :: "rat option"
  distance :: "rat option"
  positionLat :: "rat option"
  positionLong :: "rat option"

record FitSession =
  sessStartTime :: "int option"
  totalTimerTime :: "rat option"
  totalElapsedTime :: "rat option"
  sessTotalDistance :: "rat option"

record ActivityTimes =
  actStartTime :: "int option"
  actEndTime :: "int option"
  movingTime :: "rat option"
  totalDistance :: "rat option"

record TimestampGap =
  gapStartTime :: int
  gapEndTime :: int
  gapDuration :: int
  gapDurationMinutes :: int
  gapDurationHours :: rat
  gapStartDistance :: rat
  gapEndDistance :: rat
  startGpsPoint :: "(rat \<times> rat) option"
  endGpsPoint :: "(rat \<times> rat) option"

record SlowPeriod =
  startTime :: int
  endTime :: int
  recordCount :: nat
  startDistance :: rat
  endDistance :: rat
  gpsPoints :: "(rat \<times> rat) list"
  isGap :: "bool option"
  gapData :: "TimestampGap option"

text \<open>The exceptions of the JavaScript runtime that the modelled code can raise.\<close>

datatype error = TypeError

section \<open>JavaScript operators on optional numbers\<close>

text \<open>
  \<^verbatim>\<open>x && y\<close> and \<^verbatim>\<open>x || d\<close> test truthiness: an absent number is falsy, and so is
  the number \<open>0\<close>.
\<close>

definition truthy :: "rat option \<Rightarrow> bool" where
  "truthy x = (case x of None \<Rightarrow> False | Some v \<Rightarrow> v \<noteq> 0)"

text \<open>\<^verbatim>\<open>x || d\<close> for an optional number \<open>x\<close> and a number \<open>d\<close>.\<close>

definition orElse :: "rat option \<Rightarrow> rat \<Rightarrow> rat" where
  "orElse x d = (case x of None \<Rightarrow> d | Some v \<Rightarrow> if v \<noteq> 0 then v else d)"

text \<open>
  \<^verbatim>\<open>a.timestamp - b.timestamp\<close>: the difference of the time values, and \<^verbatim>\<open>NaN\<close>
  (here \<open>None\<close>) when either timestamp is absent.
\<close>

definition dateMinus :: "int option \<Rightarrow> int option \<Rightarrow> int option" where
  "dateMinus a b =
     (case a of None \<Rightarrow> None
      | Some x \<Rightarrow> (case b of None \<Rightarrow> None | Some y \<Rightarrow> Some (x - y)))"

text \<open>\<^verbatim>\<open>d > t\<close> for a difference that may be \<^verbatim>\<open>NaN\<close>: false on \<^verbatim>\<open>NaN\<close>.\<close>

definition exceeds :: "int option \<Rightarrow> int \<Rightarrow> bool" where
  "exceeds d t = (case d of None \<Rightarrow> False | Some v \<Rightarrow> v > t)"

text \<open>\<^verbatim>\<open>Math.round\<close>: the nearest integer, a tie going up.\<close>

definition mathRound :: "rat \<Rightarrow> int" where
  "mathRound x = \<lfloor>x + 1 / 2\<rfloor>"

section \<open>Constants and utilities\<close>

text \<open>
  \<^verbatim>\<open>SPEED_THRESHOLD = 0.75\<close> (\<^verbatim>\<open>src/utils/constants.ts\<close>, \<^verbatim>\<open>src/main.ts\<close>) and
  \<^verbatim>\<open>TIMESTAMP_GAP_THRESHOLD = 5 * 60 * 1000\<close> (\<^verbatim>\<open>src/analysis.js\<close>).
\<close>

definition SPEED_THRESHOLD :: rat where
  "SPEED_THRESHOLD = 75 / 100"

definition TIMESTAMP_GAP_THRESHOLD :: int where
  "TIMESTAMP_GAP_THRESHOLD = 5 * 60 * 1000"

text \<open>
  \<open>matchesTimeRange\<close> of \<^verbatim>\<open>src/utils.js\<close>: the \<^verbatim>\<open>switch\<close> over the range tag;
  \<^verbatim>\<open>default\<close> returns false.
\<close>

definition matchesTimeRange :: "string \<Rightarrow> rat \<Rightarrow> rat \<Rightarrow> bool" where
  "matchesTimeRange rng durationMinutes durationHours =
     (if rng = ''2to5'' then durationMinutes \<ge> 2 \<and> durationMinutes < 5
      else if rng = ''5to10'' then durationMinutes \<ge> 5 \<and> durationMinutes < 10
      else if rng = ''10to30'' then durationMinutes \<ge> 10 \<and> durationMinutes < 30
      else if rng = ''30to60'' then durationMinutes \<ge> 30 \<and> durationMinutes < 60
      else if rng = ''1to2hours'' then durationHours \<ge> 1 \<and> durationHours < 2
      else if rng = ''over2hours'' then durationHours \<ge> 2
      else False)"

text \<open>One semicircle in degrees: \<^verbatim>\<open>180 / Math.pow(2, 31)\<close>.\<close>

definition semicircle :: rat where
  "semicircle = 180 / 2 ^ 31"

text \<open>
  \<^verbatim>\<open>records.filter(r => r.positionLat && r.positionLong).map(r => [lat * k, long * k])\<close>.
  After the filter both coordinates are present, so \<open>the\<close> is applied to \<open>Some\<close> only.
\<close>

definition hasGps :: "FitRecord \<Rightarrow> bool" where
  "hasGps r = (truthy (positionLat r) \<and> truthy (positionLong r))"

definition toDegrees :: "FitRecord \<Rightarrow> rat \<times> rat" where
  "toDegrees r = (the (positionLat r) * semicircle, the (positionLong r) * semicircle)"

definition convertGpsCoordinates :: "FitRecord list \<Rightarrow> (rat \<times> rat) list" where
  "convertGpsCoordinates records = map toDegrees (filter hasGps records)"

section \<open>Time extractor (\<^verbatim>\<open>extractActivityTimes\<close>)\<close>

text \<open>
  \<^verbatim>\<open>new Date(v)\<close> for a number \<open>v\<close>: the time value is \<open>v\<close> truncated towards zero.
  (A value beyond the range of \<^verbatim>\<open>Date\<close> gives an invalid date; not modelled.)
\<close>

definition newDate :: "rat \<Rightarrow> int" where
  "newDate v = (if v \<ge> 0 then \<lfloor>v\<rfloor> else \<lceil>v\<rceil>)"

text \<open>
  The summary branch, \<^verbatim>\<open>if (sessions.length > 0) { ... }\<close>, on the four variables
  initialised to \<^verbatim>\<open>null\<close>. \<^verbatim>\<open>startTime.getTime()\<close> is evaluated when
  \<^verbatim>\<open>session.totalElapsedTime\<close> is truthy; on an absent \<^verbatim>\<open>startTime\<close> the member
  access raises \<^verbatim>\<open>TypeError\<close>.
\<close>

definition sessionBranch :: "FitSession list \<Rightarrow> error + ActivityTimes" where
  "sessionBranch sessions =
     (if length sessions > 0 then
        (let session = sessions ! 0;
             t = \<lparr>actStartTime = sessStartTime session, actEndTime = None,
                  movingTime = totalTimerTime session,
                  totalDistance = sessTotalDistance session\<rparr>
         in if truthy (totalElapsedTime session) then
              (case sessStartTime session of
                 None \<Rightarrow> Inl TypeError
               | Some st \<Rightarrow>
                   Inr (t\<lparr>actEndTime :=
                     Some (newDate (of_int st + the (totalElapsedTime session) * 1000))\<rparr>))
            else Inr t)
      else Inr \<lparr>actStartTime = None, actEndTime = None, movingTime = None,
                totalDistance = None\<rparr>)"

text \<open>
  \<^verbatim>\<open>src/analysis.js\<close> and \<^verbatim>\<open>src/main.ts\<close>:
  \<^verbatim>\<open>if (records.length > 0) { startTime = records[0].timestamp; endTime = ... }\<close>.
\<close>

definition extractActivityTimes :: "FitSession list \<Rightarrow> FitRecord list \<Rightarrow> error + ActivityTimes" where
  "extractActivityTimes sessions records =
     (case sessionBranch sessions of
        Inl e \<Rightarrow> Inl e
      | Inr t \<Rightarrow>
          Inr (if length records > 0
               then t\<lparr>actStartTime := timestamp (records ! 0),
                      actEndTime := timestamp (records ! (length records - 1))\<rparr>
               else t))"

text \<open>
  \<^verbatim>\<open>src/main.js\<close> has the same function with a guarded second branch:
  \<^verbatim>\<open>if (!startTime && records.length > 0) { ... }\<close>.
\<close>

definition extractActivityTimes_mainjs ::
  "FitSession list \<Rightarrow> FitRecord list \<Rightarrow> error + ActivityTimes" where
  "extractActivityTimes_mainjs sessions records =
     (case sessionBranch sessions of
        Inl e \<Rightarrow> Inl e
      | Inr t \<Rightarrow>
          Inr (if actStartTime t = None \<and> length records > 0
               then t\<lparr>actStartTime := timestamp (records ! 0),
                      actEndTime := timestamp (records ! (length records - 1))\<rparr>
               else t))"

section \<open>Gap detector (\<^verbatim>\<open>findTimestampGaps\<close>)\<close>

text \<open>
  \<^verbatim>\<open>r.positionLat && r.positionLong ? [r.positionLat * k, r.positionLong * k] : null\<close>.
\<close>

definition gpsPoint :: "FitRecord \<Rightarrow> (rat \<times> rat) option" where
  "gpsPoint r =
     (if truthy (positionLat r) \<and> truthy (positionLong r)
      then Some (the (positionLat r) * semicircle, the (positionLong r) * semicircle)
      else None)"

text \<open>
  The body of the loop for one pair of consecutive records: \<open>None\<close> when the body
  pushes nothing (\<^verbatim>\<open>continue\<close> on an absent timestamp, or a difference not above the
  threshold), the pushed gap otherwise.
\<close>

definition gapAt :: "int \<Rightarrow> FitRecord \<Rightarrow> FitRecord \<Rightarrow> TimestampGap option" where
  "gapAt gapThreshold previousRecord currentRecord =
     (case timestamp previousRecord of
        None \<Rightarrow> None
      | Some t1 \<Rightarrow>
          (case timestamp currentRecord of
             None \<Rightarrow> None
           | Some t2 \<Rightarrow>
               (let timeDifference = t2 - t1 in
                if timeDifference > gapThreshold then
                  (let minutes = mathRound (of_int timeDifference / (1000 * 60));
                       hours = of_int minutes / 60
                   in Some \<lparr>gapStartTime = t1, gapEndTime = t2,
                        gapDuration = timeDifference,
                        gapDurationMinutes = minutes,
                        gapDurationHours = hours,
                        gapStartDistance = orElse (distance previousRecord) 0,
                        gapEndDistance = orElse (distance currentRecord) 0,
                        startGpsPoint = gpsPoint previousRecord,
                        endGpsPoint = gpsPoint currentRecord\<rparr>)
                else None)))"

text \<open>\<^verbatim>\<open>xs.push(x)\<close> under \<^verbatim>\<open>if (x)\<close>, for a result that is an object or \<^verbatim>\<open>null\<close>.\<close>

definition pushOpt :: "'a list \<Rightarrow> 'a option \<Rightarrow> 'a list" where
  "pushOpt xs x = (case x of None \<Rightarrow> xs | Some v \<Rightarrow> xs @ [v])"

text \<open>\<^verbatim>\<open>for (let i = 1; i < records.length; i++) { ... }\<close>, from index \<open>i\<close> on.\<close>

function gapLoop :: "int \<Rightarrow> FitRecord list \<Rightarrow> nat \<Rightarrow> TimestampGap list \<Rightarrow> TimestampGap list" where
  "gapLoop gapThreshold records i gaps =
     (if i < length records
      then gapLoop gapThreshold records (i + 1)
             (pushOpt gaps (gapAt gapThreshold (records ! (i - 1)) (records ! i)))
      else gaps)"
  by pat_completeness auto
termination
  by (relation "measure (\<lambda>(t, records, i, gaps). length records - i)") auto

declare gapLoop.simps [simp del]

text \<open>\<^verbatim>\<open>src/analysis.js\<close> (and \<^verbatim>\<open>src/main.js\<close>): the threshold is the constant.\<close>

definition findTimestampGaps_analysis :: "FitRecord list \<Rightarrow> TimestampGap list" where
  "findTimestampGaps_analysis records = gapLoop TIMESTAMP_GAP_THRESHOLD records 1 []"

text \<open>
  \<^verbatim>\<open>src/main.ts\<close> reads the threshold from the page. The state of the
  \<^verbatim>\<open>timestampGapThreshold\<close> select is a parameter \<open>sel\<close>: \<open>None\<close> when the element is
  missing or its value is empty, \<open>Some n\<close> when \<^verbatim>\<open>parseInt\<close> of its value is \<open>n\<close>.
  (A value that \<^verbatim>\<open>parseInt\<close> cannot read gives \<^verbatim>\<open>NaN\<close>; not modelled.) The threshold
  is an integral number of milliseconds.
\<close>

definition uiThreshold :: "int option \<Rightarrow> int" where
  "uiThreshold sel = (case sel of None \<Rightarrow> 5 * 60 * 1000 | Some v \<Rightarrow> v)"

text \<open>\<^verbatim>\<open>threshold || (...)\<close>: a \<^verbatim>\<open>null\<close> or zero argument falls back to the page.\<close>

definition gapThresholdOf :: "int option \<Rightarrow> int option \<Rightarrow> int" where
  "gapThresholdOf sel threshold =
     (case threshold of
        None \<Rightarrow> uiThreshold sel
      | Some t \<Rightarrow> if t \<noteq> 0 then t else uiThreshold sel)"

definition findTimestampGaps :: "int option \<Rightarrow> FitRecord list \<Rightarrow> int option \<Rightarrow> TimestampGap list" where
  "findTimestampGaps sel records threshold =
     gapLoop (gapThresholdOf sel threshold) records 1 []"

section \<open>Run finalizer (\<^verbatim>\<open>processSlowSequence\<close>)\<close>

text \<open>
  \<^verbatim>\<open>selectedRanges.some(range => matchesTimeRange(range, minutes, hours))\<close> on a
  duration in milliseconds that may be \<^verbatim>\<open>NaN\<close>; every comparison with \<^verbatim>\<open>NaN\<close> is
  false, so no range matches it.
\<close>

definition matchesRange :: "string list \<Rightarrow> int option \<Rightarrow> bool" where
  "matchesRange selectedRanges durationMs =
     (case durationMs of
        None \<Rightarrow> False
      | Some d \<Rightarrow>
          (let durationMinutes = of_int d / (1000 * 60);
               durationHours = durationMinutes / 60
           in list_ex (\<lambda>rng. matchesTimeRange rng durationMinutes durationHours)
                selectedRanges))"

text \<open>
  The period is built only when a range matched, hence only when both boundary
  timestamps are present: \<open>startTime\<close> and \<open>endTime\<close> of a returned period are dates.
\<close>

definition processSlowSequence :: "FitRecord list \<Rightarrow> string list \<Rightarrow> SlowPeriod option" where
  "processSlowSequence currentSlowSequence selectedRanges =
     (if length currentSlowSequence = 0 then None
      else
        (let startRecord = currentSlowSequence ! 0;
             endRecord = currentSlowSequence ! (length currentSlowSequence - 1);
             durationMs = dateMinus (timestamp endRecord) (timestamp startRecord)
         in if matchesRange selectedRanges durationMs then
              (let startDistance' = orElse (distance startRecord) 0;
                   endDistance' = orElse (distance endRecord) startDistance'
               in Some \<lparr>startTime = the (timestamp startRecord),
                    endTime = the (timestamp endRecord),
                    recordCount = length currentSlowSequence,
                    startDistance = startDistance',
                    endDistance = endDistance',
                    gpsPoints = convertGpsCoordinates currentSlowSequence,
                    isGap = None,
                    gapData = None\<rparr>)
            else None))"

section \<open>Segmenter and merger (\<^verbatim>\<open>findSlowPeriodsWithRanges\<close> of \<^verbatim>\<open>src/main.ts\<close>)\<close>

text \<open>The two variables of phase 1: the periods found and the run being accumulated.\<close>

record SegState =
  slowPeriods :: "SlowPeriod list"
  currentSlowSequence :: "FitRecord list"

text \<open>\<^verbatim>\<open>record.enhancedSpeed || record.speed || 0\<close>.\<close>

definition effectiveSpeed :: "FitRecord \<Rightarrow> rat" where
  "effectiveSpeed r = orElse (enhancedSpeed r) (orElse (speed r) 0)"

text \<open>One iteration of the loop of phase 1, on record \<open>r\<close>.\<close>

definition slowStep :: "int option \<Rightarrow> string list \<Rightarrow> FitRecord \<Rightarrow> SegState \<Rightarrow> SegState" where
  "slowStep sel selectedRanges r st =
     (if effectiveSpeed r < SPEED_THRESHOLD then
        (if length (currentSlowSequence st) > 0 then
           (let previousRecord =
                  currentSlowSequence st ! (length (currentSlowSequence st) - 1);
                timeDifference = dateMinus (timestamp r) (timestamp previousRecord);
                currentThreshold = uiThreshold sel
            in if exceeds timeDifference currentThreshold then
                 \<lparr>slowPeriods =
                    pushOpt (slowPeriods st)
                      (processSlowSequence (currentSlowSequence st) selectedRanges),
                  currentSlowSequence = [r]\<rparr>
               else st\<lparr>currentSlowSequence := currentSlowSequence st @ [r]\<rparr>)
         else st\<lparr>currentSlowSequence := currentSlowSequence st @ [r]\<rparr>)
      else
        \<lparr>slowPeriods =
           pushOpt (slowPeriods st)
             (processSlowSequence (currentSlowSequence st) selectedRanges),
         currentSlowSequence = []\<rparr>)"

text \<open>Phase 1: the loop over all records, then the flush of the trailing run.\<close>

definition slowPhase :: "int option \<Rightarrow> FitRecord list \<Rightarrow> string list \<Rightarrow> SlowPeriod list" where
  "slowPhase sel records selectedRanges =
     (let st = fold (slowStep sel selectedRanges) records
                 \<lparr>slowPeriods = [], currentSlowSequence = []\<rparr>
      in pushOpt (slowPeriods st)
           (processSlowSequence (currentSlowSequence st) selectedRanges))"

text \<open>Phase 2: a gap converted to the shape of a period.\<close>

definition gapAsPeriod :: "TimestampGap \<Rightarrow> SlowPeriod" where
  "gapAsPeriod gap =
     \<lparr>startTime = gapStartTime gap,
      endTime = gapEndTime gap,
      recordCount = 0,
      startDistance = gapStartDistance gap,
      endDistance = gapEndDistance gap,
      gpsPoints =
        (case startGpsPoint gap of
           Some a \<Rightarrow> (case endGpsPoint gap of Some b \<Rightarrow> [a, b] | None \<Rightarrow> [a])
         | None \<Rightarrow> (case endGpsPoint gap of Some b \<Rightarrow> [b] | None \<Rightarrow> [])),
      isGap = Some True,
      gapData = Some gap\<rparr>"

definition gapMatches :: "string list \<Rightarrow> TimestampGap \<Rightarrow> bool" where
  "gapMatches selectedRanges gap =
     list_ex (\<lambda>rng. matchesTimeRange rng (of_int (gapDurationMinutes gap))
                      (gapDurationHours gap)) selectedRanges"

text \<open>The body of \<^verbatim>\<open>timestampGaps.forEach(gap => { ... })\<close>.\<close>

definition gapStep :: "string list \<Rightarrow> TimestampGap \<Rightarrow> SlowPeriod list \<Rightarrow> SlowPeriod list" where
  "gapStep selectedRanges gap periods =
     (if gapMatches selectedRanges gap then periods @ [gapAsPeriod gap] else periods)"

text \<open>
  \<^verbatim>\<open>slowPeriods.sort((a, b) => a.startTime - b.startTime)\<close>: every \<open>startTime\<close> in the
  list is a date, so the comparator is a consistent order on the time values, and
  \<^verbatim>\<open>Array.prototype.sort\<close> is a stable sort by that key.
\<close>

definition sortByStartTime :: "SlowPeriod list \<Rightarrow> SlowPeriod list" where
  "sortByStartTime periods = sort_key startTime periods"

definition findSlowPeriodsWithRanges ::
  "int option \<Rightarrow> FitRecord list \<Rightarrow> string list \<Rightarrow> SlowPeriod list" where
  "findSlowPeriodsWithRanges sel records selectedRanges =
     (if length selectedRanges = 0 then []
      else
        (let periods1 = slowPhase sel records selectedRanges;
             timestampGaps = findTimestampGaps sel records None;
             periods2 = fold (gapStep selectedRanges) timestampGaps periods1
         in sortByStartTime periods2))"

section \<open>Gap detection as the specification words it\<close>

text \<open>
  What the specification asks of one pair of consecutive samples, to compare with the
  loop of \<open>findTimestampGaps\<close>: no descriptor when either timestamp is absent or the
  difference does not exceed the threshold; otherwise one descriptor with the minutes
  rounded to the nearest integer, the hours derived from the rounded minutes, and the
  distances defaulting to 0 when absent.
\<close>

definition gapsOfPair :: "int \<Rightarrow> FitRecord \<times> FitRecord \<Rightarrow> TimestampGap list" where
  "gapsOfPair thresholdMs pc =
     (case timestamp (fst pc) of
        None \<Rightarrow> []
      | Some t1 \<Rightarrow>
          (case timestamp (snd pc) of
             None \<Rightarrow> []
           | Some t2 \<Rightarrow>
               if t2 - t1 > thresholdMs
               then [\<lparr>gapStartTime = t1, gapEndTime = t2, gapDuration = t2 - t1,
                      gapDurationMinutes = \<lfloor>of_int (t2 - t1) / 60000 + 1 / 2 :: rat\<rfloor>,
                      gapDurationHours =
                        of_int \<lfloor>of_int (t2 - t1) / 60000 + 1 / 2 :: rat\<rfloor> / 60,
                      gapStartDistance =
                        (case distance (fst pc) of None \<Rightarrow> 0 | Some d \<Rightarrow> d),
                      gapEndDistance =
                        (case distance (snd pc) of None \<Rightarrow> 0 | Some d \<Rightarrow> d),
                      startGpsPoint = gpsPoint (fst pc),
                      endGpsPoint = gpsPoint (snd pc)\<rparr>]
               else []))"

section \<open>Example inputs\<close>

text \<open>
  The object \<^verbatim>\<open>{}\<close> as a record and as a session: every field absent. The examples
  below set fields on it, as the object literals of the repository's tests do.
\<close>

definition emptyRecord :: FitRecord where
  "emptyRecord = \<lparr>timestamp = None, speed = None, enhancedSpeed = None, distance = None,
     positionLat = None, positionLong = None\<rparr>"

definition emptySession :: FitSession where
  "emptySession = \<lparr>sessStartTime = None, totalTimerTime = None, totalElapsedTime = None,
     sessTotalDistance = None\<rparr>"

lemmas example_defs = emptyRecord_def emptySession_def

section \<open>The range classifier\<close>

text \<open>
  C5. \<open>matchesTimeRange\<close> is a total function with half-open bucket membership:
  \<open>2to5\<close> holds iff \<open>2 \<le> minutes < 5\<close>, \<open>5to10\<close> iff \<open>5 \<le> minutes < 10\<close>,
  \<open>10to30\<close> iff \<open>10 \<le> minutes < 30\<close>, \<open>30to60\<close> iff \<open>30 \<le> minutes < 60\<close>,
  \<open>1to2hours\<close> iff \<open>1 \<le> hours < 2\<close>, \<open>over2hours\<close> iff \<open>hours \<ge> 2\<close>, and every
  other tag yields false.
\<close>

theorem matchesTimeRange_buckets:
  "(matchesTimeRange ''2to5'' m h \<longleftrightarrow> 2 \<le> m \<and> m < 5) \<and>
   (matchesTimeRange ''5to10'' m h \<longleftrightarrow> 5 \<le> m \<and> m < 10) \<and>
   (matchesTimeRange ''10to30'' m h \<longleftrightarrow> 10 \<le> m \<and> m < 30) \<and>
   (matchesTimeRange ''30to60'' m h \<longleftrightarrow> 30 \<le> m \<and> m < 60) \<and>
   (matchesTimeRange ''1to2hours'' m h \<longleftrightarrow> 1 \<le> h \<and> h < 2) \<and>
   (matchesTimeRange ''over2hours'' m h \<longleftrightarrow> 2 \<le> h) \<and>
   (r \<notin> {''2to5'', ''5to10'', ''10to30'', ''30to60'', ''1to2hours'', ''over2hours''}
      \<longrightarrow> \<not> matchesTimeRange r m h)"
  by (simp add: matchesTimeRange_def)

theorem matchesTimeRange_buckets_witness:
  "matchesTimeRange ''2to5'' 2 (2 / 60) \<and>
   \<not> matchesTimeRange ''2to5'' 5 (5 / 60) \<and>
   matchesTimeRange ''over2hours'' 120 2 \<and>
   ''2to4'' \<notin> {''2to5'', ''5to10'', ''10to30'', ''30to60'', ''1to2hours'', ''over2hours''} \<and>
   \<not> matchesTimeRange ''2to4'' 3 (3 / 60)"
  using matchesTimeRange_buckets [of 2 "2 / 60" "''2to4''"]
    matchesTimeRange_buckets [of 5 "5 / 60" "''2to4''"]
    matchesTimeRange_buckets [of 120 2 "''2to4''"]
    matchesTimeRange_buckets [of 3 "3 / 60" "''2to4''"]
  by simp

section \<open>The time extractor\<close>

text \<open>
  C1. The claim is that \<open>extractActivityTimes\<close> never throws, in particular not when
  the first summary has a truthy \<open>totalElapsedTime\<close> but no \<open>startTime\<close>. On that input
  the code evaluates \<^verbatim>\<open>startTime.getTime()\<close> on \<^verbatim>\<open>undefined\<close>: it raises
  \<^verbatim>\<open>TypeError\<close>, with or without samples.
\<close>

theorem extractActivityTimes_throws:
  "extractActivityTimes [emptySession\<lparr>totalElapsedTime := Some 3900\<rparr>] [] = Inl TypeError \<and>
   extractActivityTimes [emptySession\<lparr>totalElapsedTime := Some 3900\<rparr>]
     [emptyRecord\<lparr>timestamp := Some 1000\<rparr>] = Inl TypeError \<and>
   extractActivityTimes_mainjs [emptySession\<lparr>totalElapsedTime := Some 3900\<rparr>]
     [emptyRecord\<lparr>timestamp := Some 1000\<rparr>] = Inl TypeError"
  by (simp add: extractActivityTimes_def extractActivityTimes_mainjs_def sessionBranch_def
      truthy_def example_defs)

text \<open>The summary branch returns unless it meets that input.\<close>

lemma sessionBranch_returns:
  assumes "sessions = [] \<or> sessStartTime (hd sessions) \<noteq> None
             \<or> \<not> truthy (totalElapsedTime (hd sessions))"
  shows "\<exists>t. sessionBranch sessions = Inr t \<and>
           actStartTime t = (if sessions = [] then None else sessStartTime (hd sessions)) \<and>
           actEndTime t =
             (if sessions = [] then None
              else case totalElapsedTime (hd sessions) of
                     None \<Rightarrow> None
                   | Some e \<Rightarrow>
                       if e = 0 then None
                       else Some (newDate (of_int (the (sessStartTime (hd sessions)))
                                   + e * 1000)))"
  using assms
  by (cases sessions) (auto simp: sessionBranch_def Let_def truthy_def split: option.splits)

text \<open>
  C3, as stated, fails on \<^verbatim>\<open>src/main.js\<close>: there the second branch is guarded by
  \<^verbatim>\<open>!startTime\<close>, and a summary with a start time keeps its start and end although
  samples exist.
\<close>

theorem extractActivityTimes_mainjs_keeps_summary:
  "extractActivityTimes_mainjs [emptySession\<lparr>sessStartTime := Some 1000\<rparr>]
     [emptyRecord\<lparr>timestamp := Some 5000\<rparr>, emptyRecord\<lparr>timestamp := Some 9000\<rparr>]
     = Inr \<lparr>actStartTime = Some 1000, actEndTime = None, movingTime = None,
            totalDistance = None\<rparr> \<and>
   timestamp (hd [emptyRecord\<lparr>timestamp := Some 5000\<rparr>,
                  emptyRecord\<lparr>timestamp := Some 9000\<rparr>]) = Some 5000 \<and>
   timestamp (last [emptyRecord\<lparr>timestamp := Some 5000\<rparr>,
                    emptyRecord\<lparr>timestamp := Some 9000\<rparr>]) = Some 9000"
  by (simp add: extractActivityTimes_mainjs_def sessionBranch_def truthy_def example_defs)

text \<open>
  C3, amended. Let the sample list be non-empty and the summary branch return (there is
  no summary, or the first summary has a start time, or its \<open>totalElapsedTime\<close> is
  falsy). Then \<open>extractActivityTimes\<close> of \<^verbatim>\<open>src/analysis.js\<close> and \<^verbatim>\<open>src/main.ts\<close>
  returns the first sample's timestamp as start and the last sample's as end, whatever
  the summary gave. \<open>extractActivityTimes\<close> of \<^verbatim>\<open>src/main.js\<close> does so only when the
  summary gave no start time; otherwise it returns the start and end of the summary.
\<close>

theorem extractActivityTimes_overwrite:
  assumes "records \<noteq> []"
    and "sessions = [] \<or> sessStartTime (hd sessions) \<noteq> None
           \<or> \<not> truthy (totalElapsedTime (hd sessions))"
  shows "(\<exists>t. extractActivityTimes sessions records = Inr t \<and>
            actStartTime t = timestamp (hd records) \<and>
            actEndTime t = timestamp (last records)) \<and>
         (\<exists>t. extractActivityTimes_mainjs sessions records = Inr t \<and>
            (if sessions \<noteq> [] \<and> sessStartTime (hd sessions) \<noteq> None
             then actStartTime t = sessStartTime (hd sessions) \<and>
                  actEndTime t =
                    (case totalElapsedTime (hd sessions) of
                       None \<Rightarrow> None
                     | Some e \<Rightarrow>
                         if e = 0 then None
                         else Some (newDate (of_int (the (sessStartTime (hd sessions)))
                                     + e * 1000)))
             else actStartTime t = timestamp (hd records) \<and>
                  actEndTime t = timestamp (last records)))"
proof -
  from sessionBranch_returns [OF assms(2)] obtain s where
    s: "sessionBranch sessions = Inr s"
       "actStartTime s = (if sessions = [] then None else sessStartTime (hd sessions))"
       "actEndTime s =
          (if sessions = [] then None
           else case totalElapsedTime (hd sessions) of
                  None \<Rightarrow> None
                | Some e \<Rightarrow>
                    if e = 0 then None
                    else Some (newDate (of_int (the (sessStartTime (hd sessions)))
                                + e * 1000)))"
    by blast
  from assms(1) have idx:
    "records ! 0 = hd records" "records ! (length records - 1) = last records"
    by (simp_all add: hd_conv_nth last_conv_nth)
  from assms(1) have len: "length records > 0" by simp
  show ?thesis
    using s idx len
    by (auto simp: extractActivityTimes_def extractActivityTimes_mainjs_def)
qed

theorem extractActivityTimes_overwrite_witness:
  "[emptyRecord\<lparr>timestamp := Some 5000\<rparr>, emptyRecord\<lparr>timestamp := Some 9000\<rparr>] \<noteq> [] \<and>
   sessStartTime (hd [emptySession\<lparr>sessStartTime := Some 1000,
                                   totalElapsedTime := Some 60\<rparr>]) \<noteq> None \<and>
   (\<exists>t. extractActivityTimes
           [emptySession\<lparr>sessStartTime := Some 1000, totalElapsedTime := Some 60\<rparr>]
           [emptyRecord\<lparr>timestamp := Some 5000\<rparr>, emptyRecord\<lparr>timestamp := Some 9000\<rparr>]
         = Inr t \<and> actStartTime t = Some 5000 \<and> actEndTime t = Some 9000) \<and>
   (\<exists>t. extractActivityTimes_mainjs
           [emptySession\<lparr>sessStartTime := Some 1000, totalElapsedTime := Some 60\<rparr>]
           [emptyRecord\<lparr>timestamp := Some 5000\<rparr>, emptyRecord\<lparr>timestamp := Some 9000\<rparr>]
         = Inr t \<and> actStartTime t = Some 1000 \<and> actEndTime t = Some 61000)"
  using extractActivityTimes_overwrite
    [of "[emptyRecord\<lparr>timestamp := Some 5000\<rparr>, emptyRecord\<lparr>timestamp := Some 9000\<rparr>]"
        "[emptySession\<lparr>sessStartTime := Some 1000, totalElapsedTime := Some 60\<rparr>]"]
  by (simp add: example_defs newDate_def)

section \<open>The run finalizer\<close>

lemma orElse_cases:
  "orElse x d = (case x of None \<Rightarrow> d | Some v \<Rightarrow> if v = 0 then d else v)"
  by (simp add: orElse_def split: option.splits)

text \<open>
  C4. The claim is that \<open>endDistance\<close> is the last sample's distance and falls back to
  \<open>startDistance\<close> only when that distance is missing, as the comment
  \<^verbatim>\<open>// Fallback if no end distance\<close> and the test
  \<^verbatim>\<open>uses fallback end distance when not available\<close> say. The code writes the fallback
  with \<^verbatim>\<open>||\<close>, which also takes it for a distance that is present and 0: on a run
  whose first sample has distance 1000 and whose last sample has distance 0, the
  descriptor has \<open>endDistance = 1000\<close>, not the last sample's distance. On the run of
  the test, whose last sample has no distance, the fallback is as the claim says.
\<close>

theorem processSlowSequence_zero_end_distance:
  "processSlowSequence
     [emptyRecord\<lparr>timestamp := Some 0, distance := Some 1000\<rparr>,
      emptyRecord\<lparr>timestamp := Some 180000, distance := Some 0\<rparr>] [''2to5'']
     = Some \<lparr>startTime = 0, endTime = 180000, recordCount = 2, startDistance = 1000,
             endDistance = 1000, gpsPoints = [], isGap = None, gapData = None\<rparr> \<and>
   distance (last [emptyRecord\<lparr>timestamp := Some 0, distance := Some 1000\<rparr>,
                   emptyRecord\<lparr>timestamp := Some 180000, distance := Some 0\<rparr>]) = Some 0 \<and>
   processSlowSequence
     [emptyRecord\<lparr>timestamp := Some 0, distance := Some 1000\<rparr>,
      emptyRecord\<lparr>timestamp := Some 180000\<rparr>] [''2to5'']
     = Some \<lparr>startTime = 0, endTime = 180000, recordCount = 2, startDistance = 1000,
             endDistance = 1000, gpsPoints = [], isGap = None, gapData = None\<rparr>"
  by (simp add: processSlowSequence_def matchesRange_def dateMinus_def
      matchesTimeRange_def orElse_def convertGpsCoordinates_def hasGps_def truthy_def
      example_defs)

section \<open>Coordinate conversion\<close>

text \<open>
  C8. \<open>convertGpsCoordinates\<close> keeps exactly the samples whose latitude and longitude
  are both present and non-zero (a coordinate of exactly 0 counts as absent), maps each
  kept sample to \<open>(lat * 180 / 2^31, lon * 180 / 2^31)\<close>, and keeps the order of the
  input: the result is the concatenation, in input order, of one point per kept sample
  and nothing per dropped sample.
\<close>

theorem convertGpsCoordinates_kept:
  "convertGpsCoordinates records =
     concat (map (\<lambda>r. case positionLat r of
                         None \<Rightarrow> []
                       | Some lat \<Rightarrow>
                           (case positionLong r of
                              None \<Rightarrow> []
                            | Some lon \<Rightarrow>
                                if lat = 0 \<or> lon = 0 then []
                                else [(lat * (180 / 2 ^ 31), lon * (180 / 2 ^ 31))]))
             records)"
  by (induction records)
    (auto simp: convertGpsCoordinates_def hasGps_def toDegrees_def truthy_def semicircle_def
      split: option.splits)

theorem convertGpsCoordinates_kept_witness:
  "convertGpsCoordinates
     [emptyRecord\<lparr>positionLat := Some 612553967, positionLong := Some (- 2193335)\<rparr>,
      emptyRecord\<lparr>positionLat := Some 612553968\<rparr>,
      emptyRecord\<lparr>positionLat := Some 0, positionLong := Some (- 2193336)\<rparr>,
      emptyRecord\<lparr>positionLat := Some 4, positionLong := Some 8\<rparr>]
   = [(612553967 * (180 / 2 ^ 31), - 2193335 * (180 / 2 ^ 31)),
      (4 * (180 / 2 ^ 31), 8 * (180 / 2 ^ 31))]"
  using convertGpsCoordinates_kept
    [of "[emptyRecord\<lparr>positionLat := Some 612553967, positionLong := Some (- 2193335)\<rparr>,
          emptyRecord\<lparr>positionLat := Some 612553968\<rparr>,
          emptyRecord\<lparr>positionLat := Some 0, positionLong := Some (- 2193336)\<rparr>,
          emptyRecord\<lparr>positionLat := Some 4, positionLong := Some 8\<rparr>]"]
  by (simp add: example_defs)

section \<open>The gap detector\<close>

lemma floor_rat_numeral:
  "\<lfloor>numeral a / numeral b :: rat\<rfloor> = numeral a div numeral b"
  by (metis floor_divide_of_int_eq of_int_numeral)

lemma pushOpt_gapAt:
  "pushOpt gaps (gapAt thr p c) = gaps @ gapsOfPair thr (p, c)"
  by (simp add: pushOpt_def gapAt_def gapsOfPair_def Let_def mathRound_def orElse_cases
      split: option.splits)

lemma nth_pairs:
  "Suc j < length records \<Longrightarrow> zip records (tl records) ! j = (records ! j, records ! Suc j)"
  by (simp add: nth_tl)

text \<open>
  The loop started at index \<open>i\<close> appends to \<open>gaps\<close> what the pairs from position
  \<open>i - 1\<close> on call for.
\<close>

lemma gapLoop_eq:
  "1 \<le> i \<Longrightarrow>
     gapLoop thr records i gaps =
       gaps @ concat (map (gapsOfPair thr) (drop (i - 1) (zip records (tl records))))"
proof (induction thr records i gaps rule: gapLoop.induct)
  case (1 thr records i gaps)
  show ?case
  proof (cases "i < length records")
    case True
    with "1.prems" have j: "i - 1 < length (zip records (tl records))" by simp
    from True "1.prems" have nth:
      "zip records (tl records) ! (i - 1) = (records ! (i - 1), records ! i)"
      using nth_pairs [of "i - 1" records] by simp
    have "drop (i - 1) (zip records (tl records)) =
            (records ! (i - 1), records ! i) # drop i (zip records (tl records))"
      using Cons_nth_drop_Suc [OF j] nth "1.prems" by simp
    moreover have "gapLoop thr records i gaps =
        gapLoop thr records (i + 1)
          (pushOpt gaps (gapAt thr (records ! (i - 1)) (records ! i)))"
      using True by (subst gapLoop.simps) simp
    ultimately show ?thesis
      using "1.IH" [OF True] by (simp add: pushOpt_gapAt)
  next
    case False
    then have "drop (i - 1) (zip records (tl records)) = []" by simp
    moreover have "gapLoop thr records i gaps = gaps"
      using False by (subst gapLoop.simps) simp
    ultimately show ?thesis by simp
  qed
qed

text \<open>
  C2. For every sample list, \<open>findTimestampGaps\<close> emits, in scan order, exactly one
  descriptor per consecutive pair whose timestamps are both present and whose difference
  strictly exceeds the threshold, and nothing for any other pair; each descriptor has
  \<open>gapDurationMinutes = round (diff / 60000)\<close>, \<open>gapDurationHours =
  gapDurationMinutes / 60\<close> and distances that default to 0 when absent. In
  \<^verbatim>\<open>src/main.ts\<close> the threshold is the caller's argument when it is given and not 0,
  otherwise the page's setting when there is one, otherwise 300000 ms; in
  \<^verbatim>\<open>src/analysis.js\<close> it is the constant 300000 ms.
\<close>

theorem findTimestampGaps_pairs:
  "findTimestampGaps sel records threshold =
     concat (map (gapsOfPair
                    (case threshold of
                       Some t \<Rightarrow>
                         if t = 0 then (case sel of Some v \<Rightarrow> v | None \<Rightarrow> 300000) else t
                     | None \<Rightarrow> (case sel of Some v \<Rightarrow> v | None \<Rightarrow> 300000)))
             (zip records (tl records))) \<and>
   findTimestampGaps_analysis records =
     concat (map (gapsOfPair 300000) (zip records (tl records)))"
  by (simp add: findTimestampGaps_def findTimestampGaps_analysis_def gapLoop_eq
      TIMESTAMP_GAP_THRESHOLD_def gapThresholdOf_def uiThreshold_def
      split: option.splits)

text \<open>
  Five samples: a ten-minute jump, a jump of exactly five minutes, and two pairs with
  an absent timestamp (skipped).
  \<^item> With the argument 300000 the ten-minute jump is the only gap (10 minutes); the jump
    of exactly the threshold gives nothing.
  \<^item> With the argument 60000 and the page set to 900000 the argument decides: both jumps
    are gaps.
  \<^item> With no argument and the page set to 900000 the page decides: no gap.
  \<^item> With the argument 0 and the page set to 900000 the page decides as well: no gap.
  \<^item> With no argument and no page setting the default 300000 decides: one gap.
  Two samples exactly five minutes apart give no gap in \<^verbatim>\<open>src/analysis.js\<close>.
\<close>

theorem findTimestampGaps_pairs_witness:
  "findTimestampGaps None
     [emptyRecord\<lparr>timestamp := Some 0, distance := Some 1000\<rparr>,
      emptyRecord\<lparr>timestamp := Some 600000\<rparr>,
      emptyRecord\<lparr>timestamp := Some 900000\<rparr>,
      emptyRecord,
      emptyRecord\<lparr>timestamp := Some 9000000\<rparr>] (Some 300000)
   = [\<lparr>gapStartTime = 0, gapEndTime = 600000, gapDuration = 600000,
       gapDurationMinutes = 10, gapDurationHours = 1 / 6,
       gapStartDistance = 1000, gapEndDistance = 0,
       startGpsPoint = None, endGpsPoint = None\<rparr>] \<and>
   map gapDurationMinutes
     (findTimestampGaps (Some 900000)
        [emptyRecord\<lparr>timestamp := Some 0, distance := Some 1000\<rparr>,
         emptyRecord\<lparr>timestamp := Some 600000\<rparr>,
         emptyRecord\<lparr>timestamp := Some 900000\<rparr>,
         emptyRecord,
         emptyRecord\<lparr>timestamp := Some 9000000\<rparr>] (Some 60000)) = [10, 5] \<and>
   findTimestampGaps (Some 900000)
     [emptyRecord\<lparr>timestamp := Some 0, distance := Some 1000\<rparr>,
      emptyRecord\<lparr>timestamp := Some 600000\<rparr>,
      emptyRecord\<lparr>timestamp := Some 900000\<rparr>,
      emptyRecord,
      emptyRecord\<lparr>timestamp := Some 9000000\<rparr>] None = [] \<and>
   findTimestampGaps (Some 900000)
     [emptyRecord\<lparr>timestamp := Some 0, distance := Some 1000\<rparr>,
      emptyRecord\<lparr>timestamp := Some 600000\<rparr>,
      emptyRecord\<lparr>timestamp := Some 900000\<rparr>,
      emptyRecord,
      emptyRecord\<lparr>timestamp := Some 9000000\<rparr>] (Some 0) = [] \<and>
   map gapDurationMinutes
     (findTimestampGaps None
        [emptyRecord\<lparr>timestamp := Some 0, distance := Some 1000\<rparr>,
         emptyRecord\<lparr>timestamp := Some 600000\<rparr>,
         emptyRecord\<lparr>timestamp := Some 900000\<rparr>,
         emptyRecord,
         emptyRecord\<lparr>timestamp := Some 9000000\<rparr>] None) = [10] \<and>
   findTimestampGaps_analysis
     [emptyRecord\<lparr>timestamp := Some 0\<rparr>, emptyRecord\<lparr>timestamp := Some 300000\<rparr>] = []"
  using findTimestampGaps_pairs
      [of None
          "[emptyRecord\<lparr>timestamp := Some 0, distance := Some 1000\<rparr>,
            emptyRecord\<lparr>timestamp := Some 600000\<rparr>,
            emptyRecord\<lparr>timestamp := Some 900000\<rparr>,
            emptyRecord,
            emptyRecord\<lparr>timestamp := Some 9000000\<rparr>]" "Some 300000"]
    findTimestampGaps_pairs
      [of "Some 900000"
          "[emptyRecord\<lparr>timestamp := Some 0, distance := Some 1000\<rparr>,
            emptyRecord\<lparr>timestamp := Some 600000\<rparr>,
            emptyRecord\<lparr>timestamp := Some 900000\<rparr>,
            emptyRecord,
            emptyRecord\<lparr>timestamp := Some 9000000\<rparr>]" "Some 60000"]
    findTimestampGaps_pairs
      [of "Some 900000"
          "[emptyRecord\<lparr>timestamp := Some 0, distance := Some 1000\<rparr>,
            emptyRecord\<lparr>timestamp := Some 600000\<rparr>,
            emptyRecord\<lparr>timestamp := Some 900000\<rparr>,
            emptyRecord,
            emptyRecord\<lparr>timestamp := Some 9000000\<rparr>]" None]
    findTimestampGaps_pairs
      [of "Some 900000"
          "[emptyRecord\<lparr>timestamp := Some 0, distance := Some 1000\<rparr>,
            emptyRecord\<lparr>timestamp := Some 600000\<rparr>,
            emptyRecord\<lparr>timestamp := Some 900000\<rparr>,
            emptyRecord,
            emptyRecord\<lparr>timestamp := Some 9000000\<rparr>]" "Some 0"]
    findTimestampGaps_pairs
      [of None
          "[emptyRecord\<lparr>timestamp := Some 0, distance := Some 1000\<rparr>,
            emptyRecord\<lparr>timestamp := Some 600000\<rparr>,
            emptyRecord\<lparr>timestamp := Some 900000\<rparr>,
            emptyRecord,
            emptyRecord\<lparr>timestamp := Some 9000000\<rparr>]" None]
    findTimestampGaps_pairs
      [of None
          "[emptyRecord\<lparr>timestamp := Some 0\<rparr>, emptyRecord\<lparr>timestamp := Some 300000\<rparr>]"
          None]
  by (simp add: gapsOfPair_def gpsPoint_def truthy_def floor_rat_numeral example_defs)

section \<open>The slow-run segmenter\<close>

text \<open>
  C7. In the gap-aware loop of \<^verbatim>\<open>src/main.ts\<close>, when the next sample is slow, a run
  is being accumulated, and the time from the run's last sample to the next sample
  exceeds the gap threshold, the step finalizes the accumulated run at once (its
  descriptor is appended if the finalizer returns one) and starts a new run that
  contains exactly the current sample.
\<close>

theorem slowStep_gap_split:
  assumes "effectiveSpeed r < SPEED_THRESHOLD"
    and "currentSlowSequence st \<noteq> []"
    and "timestamp r = Some t"
    and "timestamp (last (currentSlowSequence st)) = Some t'"
    and "t - t' > uiThreshold sel"
  shows "slowStep sel ranges r st =
           \<lparr>slowPeriods =
              (case processSlowSequence (currentSlowSequence st) ranges of
                 None \<Rightarrow> slowPeriods st
               | Some p \<Rightarrow> slowPeriods st @ [p]),
            currentSlowSequence = [r]\<rparr>"
proof -
  from assms(2) have "currentSlowSequence st ! (length (currentSlowSequence st) - 1)
      = last (currentSlowSequence st)"
    by (simp add: last_conv_nth)
  with assms show ?thesis
    by (simp add: slowStep_def Let_def dateMinus_def exceeds_def pushOpt_def)
qed

text \<open>Two slow samples three minutes apart are accumulated into one run.\<close>

lemma example_run:
  "fold (slowStep None [''2to5''])
     [emptyRecord\<lparr>timestamp := Some 0\<rparr>, emptyRecord\<lparr>timestamp := Some 180000\<rparr>]
     \<lparr>slowPeriods = [], currentSlowSequence = []\<rparr>
   = \<lparr>slowPeriods = [],
      currentSlowSequence =
        [emptyRecord\<lparr>timestamp := Some 0\<rparr>, emptyRecord\<lparr>timestamp := Some 180000\<rparr>]\<rparr>"
  by (simp add: slowStep_def effectiveSpeed_def orElse_def SPEED_THRESHOLD_def
      dateMinus_def exceeds_def uiThreshold_def example_defs)

text \<open>
  A third slow sample, more than five minutes after the second, closes that run as a
  period of three minutes and starts a new run of one sample, with no fast sample in
  between.
\<close>

theorem slowStep_gap_split_witness:
  "slowStep None [''2to5''] (emptyRecord\<lparr>timestamp := Some 1000000\<rparr>)
     (fold (slowStep None [''2to5''])
        [emptyRecord\<lparr>timestamp := Some 0\<rparr>, emptyRecord\<lparr>timestamp := Some 180000\<rparr>]
        \<lparr>slowPeriods = [], currentSlowSequence = []\<rparr>)
   = \<lparr>slowPeriods =
        [\<lparr>startTime = 0, endTime = 180000, recordCount = 2, startDistance = 0,
          endDistance = 0, gpsPoints = [], isGap = None, gapData = None\<rparr>],
      currentSlowSequence = [emptyRecord\<lparr>timestamp := Some 1000000\<rparr>]\<rparr>"
  using slowStep_gap_split
    [of "emptyRecord\<lparr>timestamp := Some 1000000\<rparr>"
        "\<lparr>slowPeriods = [],
          currentSlowSequence =
            [emptyRecord\<lparr>timestamp := Some 0\<rparr>, emptyRecord\<lparr>timestamp := Some 180000\<rparr>]\<rparr>"
        1000000 180000 None "[''2to5'']"]
  unfolding example_run
  by (simp add: effectiveSpeed_def orElse_def SPEED_THRESHOLD_def
      uiThreshold_def processSlowSequence_def matchesRange_def dateMinus_def
      matchesTimeRange_def convertGpsCoordinates_def hasGps_def truthy_def example_defs)

section \<open>The merged pipeline\<close>

subsection \<open>Phase 2 and the bucket bound\<close>

lemma fold_gapStep:
  "fold (gapStep ranges) gaps acc = acc @ map gapAsPeriod (filter (gapMatches ranges) gaps)"
  by (induction gaps arbitrary: acc) (simp_all add: gapStep_def)

lemma gapMatches_iff:
  "gapMatches ranges g \<longleftrightarrow>
     (\<exists>rng \<in> set ranges.
        matchesTimeRange rng (of_int (gapDurationMinutes g)) (gapDurationHours g))"
  by (simp add: gapMatches_def list_ex_iff)

lemma matchesTimeRange_two_minutes:
  "matchesTimeRange rng m (m / 60) \<Longrightarrow> 2 \<le> m"
  by (simp add: matchesTimeRange_def split: if_splits)

lemma processSlowSequence_SomeD:
  assumes "processSlowSequence run ranges = Some p"
  shows "run \<noteq> []" and "isGap p = None" and "recordCount p = length run"
    and "timestamp (hd run) = Some (startTime p)"
    and "timestamp (last run) = Some (endTime p)"
    and "endTime p - startTime p \<ge> 120000"
proof -
  from assms show ne: "run \<noteq> []"
    by (auto simp: processSlowSequence_def)
  then have idx: "run ! 0 = hd run" "run ! (length run - 1) = last run"
    by (simp_all add: hd_conv_nth last_conv_nth)
  from assms show "isGap p = None" "recordCount p = length run"
    by (auto simp: processSlowSequence_def Let_def split: if_splits)
  from assms obtain t1 t2 where
    t: "timestamp (run ! 0) = Some t1" "timestamp (run ! (length run - 1)) = Some t2"
      "matchesRange ranges (Some (t2 - t1))" "startTime p = t1" "endTime p = t2"
    by (auto simp: processSlowSequence_def Let_def dateMinus_def matchesRange_def
        split: if_splits option.splits)
  from t idx show "timestamp (hd run) = Some (startTime p)"
    and "timestamp (last run) = Some (endTime p)"
    by simp_all
  from t obtain rng where
    "matchesTimeRange rng (of_int (t2 - t1) / 60000) (of_int (t2 - t1) / 60000 / 60)"
    by (auto simp: matchesRange_def list_ex_iff)
  from matchesTimeRange_two_minutes [OF this] have "120000 \<le> t2 - t1"
    by simp
  with t show "endTime p - startTime p \<ge> 120000" by simp
qed

subsection \<open>An invariant of phase 1\<close>

text \<open>
  Every period that phase 1 emits is a result of the run finalizer, so what holds of
  every result of the finalizer holds of every slow period.
\<close>

lemma processSlowSequence_no_ranges: "processSlowSequence run [] = None"
  by (simp add: processSlowSequence_def matchesRange_def Let_def split: option.splits)

lemma slowStep_periods:
  "slowPeriods (slowStep sel ranges r st) = slowPeriods st \<or>
   (\<exists>p. processSlowSequence (currentSlowSequence st) ranges = Some p \<and>
        slowPeriods (slowStep sel ranges r st) = slowPeriods st @ [p])"
  by (auto simp: slowStep_def Let_def pushOpt_def split: option.splits)

lemma fold_slowStep_all:
  assumes "\<And>run p. processSlowSequence run ranges = Some p \<Longrightarrow> Q p"
    and "\<forall>p \<in> set (slowPeriods st). Q p"
  shows "\<forall>p \<in> set (slowPeriods (fold (slowStep sel ranges) records st)). Q p"
  using assms(2)
proof (induction records arbitrary: st)
  case Nil
  then show ?case by simp
next
  case (Cons r records)
  have "\<forall>p \<in> set (slowPeriods (slowStep sel ranges r st)). Q p"
    using slowStep_periods [of sel ranges r st] Cons.prems assms(1) by auto
  from Cons.IH [OF this] show ?case by simp
qed

lemma slowPhase_all:
  assumes "\<And>run p. processSlowSequence run ranges = Some p \<Longrightarrow> Q p"
  shows "\<forall>p \<in> set (slowPhase sel records ranges). Q p"
proof -
  let ?st = "fold (slowStep sel ranges) records \<lparr>slowPeriods = [], currentSlowSequence = []\<rparr>"
  have "\<forall>p \<in> set (slowPeriods ?st). Q p"
    by (rule fold_slowStep_all [OF assms]) simp_all
  then show ?thesis
    using assms by (auto simp: slowPhase_def Let_def pushOpt_def split: option.splits)
qed

lemma slowPhase_no_ranges: "slowPhase sel records [] = []"
proof -
  have "\<forall>p \<in> set (slowPhase sel records []). False"
    by (rule slowPhase_all) (simp add: processSlowSequence_no_ranges)
  then show ?thesis by (cases "slowPhase sel records []") auto
qed

lemma findSlowPeriodsWithRanges_eq:
  "findSlowPeriodsWithRanges sel records ranges =
     sort_key startTime
       (slowPhase sel records ranges @
        map gapAsPeriod (filter (gapMatches ranges) (findTimestampGaps sel records None)))"
proof (cases "ranges = []")
  case True
  then show ?thesis
    by (simp add: findSlowPeriodsWithRanges_def slowPhase_no_ranges gapMatches_def)
next
  case False
  then show ?thesis
    by (simp add: findSlowPeriodsWithRanges_def Let_def fold_gapStep sortByStartTime_def)
qed

lemma gap_in_gapsOfPair:
  assumes "g \<in> set (findTimestampGaps sel records threshold)"
  shows "\<exists>pc. g \<in> set (gapsOfPair (gapThresholdOf sel threshold) pc)"
  using assms by (auto simp: findTimestampGaps_def gapLoop_eq)

lemma gapsOfPair_minutes:
  assumes "g \<in> set (gapsOfPair thr pc)"
  shows "gapDurationMinutes g = \<lfloor>of_int (gapEndTime g - gapStartTime g) / 60000 + 1 / 2 :: rat\<rfloor>"
    and "gapDurationHours g = of_int (gapDurationMinutes g) / 60"
  using assms by (auto simp: gapsOfPair_def split: option.splits if_splits)

lemma gap_matching_positive:
  assumes "g \<in> set (findTimestampGaps sel records threshold)" and "gapMatches ranges g"
  shows "gapStartTime g \<le> gapEndTime g"
proof -
  from gap_in_gapsOfPair [OF assms(1)] obtain pc where
    pc: "g \<in> set (gapsOfPair (gapThresholdOf sel threshold) pc)" by blast
  note m = gapsOfPair_minutes [OF pc]
  from assms(2) obtain rng where
    "matchesTimeRange rng (of_int (gapDurationMinutes g)) (of_int (gapDurationMinutes g) / 60)"
    by (auto simp: gapMatches_iff m(2))
  from matchesTimeRange_two_minutes [OF this] have "2 \<le> gapDurationMinutes g" by simp
  then have "(2::rat) \<le> of_int (gapEndTime g - gapStartTime g) / 60000 + 1 / 2"
    unfolding m(1) by (simp add: le_floor_iff)
  then have "(90000::rat) \<le> of_int (gapEndTime g - gapStartTime g)"
    by (simp add: field_simps)
  then have "90000 \<le> gapEndTime g - gapStartTime g"
    using of_int_le_iff [where ?'a = rat, of 90000 "gapEndTime g - gapStartTime g"]
    by simp
  then show ?thesis by simp
qed


lemma period_cases:
  assumes "p \<in> set (findSlowPeriodsWithRanges sel records ranges)"
  shows "p \<in> set (slowPhase sel records ranges) \<or>
         (\<exists>g \<in> set (findTimestampGaps sel records None).
            gapMatches ranges g \<and> p = gapAsPeriod g)"
  using assms by (auto simp: findSlowPeriodsWithRanges_eq)

lemma slow_period_facts:
  assumes "p \<in> set (slowPhase sel records ranges)"
  shows "isGap p = None \<and> 1 \<le> recordCount p \<and> 120000 \<le> endTime p - startTime p"
proof -
  have "\<forall>p \<in> set (slowPhase sel records ranges).
          isGap p = None \<and> 1 \<le> recordCount p \<and> 120000 \<le> endTime p - startTime p"
  proof (rule slowPhase_all)
    fix run p
    assume a: "processSlowSequence run ranges = Some p"
    from processSlowSequence_SomeD [OF a]
    show "isGap p = None \<and> 1 \<le> recordCount p \<and> 120000 \<le> endTime p - startTime p"
      by (cases run) simp_all
  qed
  with assms show ?thesis by blast
qed

lemma all_periods_wellformed:
  assumes "p \<in> set (findSlowPeriodsWithRanges sel records ranges)"
  shows "startTime p \<le> endTime p \<and> (recordCount p = 0 \<longleftrightarrow> isGap p = Some True) \<and>
         (isGap p \<noteq> Some True \<longrightarrow> 1 \<le> recordCount p)"
  using period_cases [OF assms]
proof
  assume "p \<in> set (slowPhase sel records ranges)"
  from slow_period_facts [OF this] show ?thesis by simp
next
  assume "\<exists>g \<in> set (findTimestampGaps sel records None).
            gapMatches ranges g \<and> p = gapAsPeriod g"
  then obtain g where g: "g \<in> set (findTimestampGaps sel records None)"
      "gapMatches ranges g" "p = gapAsPeriod g"
    by blast
  from gap_matching_positive [OF g(1,2)] g(3) show ?thesis
    by (simp add: gapAsPeriod_def)
qed

subsection \<open>Three recordings, evaluated\<close>

text \<open>
  With \<open>T = 0\<close>: a slow run from \<open>T + 2 min\<close> to \<open>T + 5 min\<close> and a recording gap from
  \<open>T + 10 min\<close> to \<open>T + 20 min\<close>; and a recording whose gap comes before its slow run.
\<close>

lemmas pipeline_defs =
  findSlowPeriodsWithRanges_def slowPhase_def slowStep_def effectiveSpeed_def orElse_def
  SPEED_THRESHOLD_def dateMinus_def exceeds_def uiThreshold_def pushOpt_def
  processSlowSequence_def matchesRange_def matchesTimeRange_def convertGpsCoordinates_def
  hasGps_def truthy_def findTimestampGaps_def gapThresholdOf_def gapLoop.simps gapAt_def
  mathRound_def gpsPoint_def gapStep_def gapMatches_def gapAsPeriod_def sortByStartTime_def
  floor_rat_numeral

lemma example_pipeline:
  "findSlowPeriodsWithRanges None
     [emptyRecord\<lparr>timestamp := Some 0, speed := Some 5\<rparr>,
      emptyRecord\<lparr>timestamp := Some 120000\<rparr>,
      emptyRecord\<lparr>timestamp := Some 300000\<rparr>,
      emptyRecord\<lparr>timestamp := Some 600000, speed := Some 5\<rparr>,
      emptyRecord\<lparr>timestamp := Some 1200000, speed := Some 5\<rparr>]
     [''2to5'', ''10to30'']
   = [\<lparr>startTime = 120000, endTime = 300000, recordCount = 2, startDistance = 0,
       endDistance = 0, gpsPoints = [], isGap = None, gapData = None\<rparr>,
      \<lparr>startTime = 600000, endTime = 1200000, recordCount = 0, startDistance = 0,
       endDistance = 0, gpsPoints = [], isGap = Some True,
       gapData = Some \<lparr>gapStartTime = 600000, gapEndTime = 1200000, gapDuration = 600000,
         gapDurationMinutes = 10, gapDurationHours = 1 / 6, gapStartDistance = 0,
         gapEndDistance = 0, startGpsPoint = None, endGpsPoint = None\<rparr>\<rparr>]"
  by (simp add: pipeline_defs example_defs)

lemma example_pipeline_gap_first:
  "findSlowPeriodsWithRanges None
     [emptyRecord\<lparr>timestamp := Some 0, speed := Some 5\<rparr>,
      emptyRecord\<lparr>timestamp := Some 600000, speed := Some 5\<rparr>,
      emptyRecord\<lparr>timestamp := Some 700000\<rparr>,
      emptyRecord\<lparr>timestamp := Some 880000\<rparr>]
     [''2to5'', ''10to30'']
   = [\<lparr>startTime = 0, endTime = 600000, recordCount = 0, startDistance = 0,
       endDistance = 0, gpsPoints = [], isGap = Some True,
       gapData = Some \<lparr>gapStartTime = 0, gapEndTime = 600000, gapDuration = 600000,
         gapDurationMinutes = 10, gapDurationHours = 1 / 6, gapStartDistance = 0,
         gapEndDistance = 0, startGpsPoint = None, endGpsPoint = None\<rparr>\<rparr>,
      \<lparr>startTime = 700000, endTime = 880000, recordCount = 2, startDistance = 0,
       endDistance = 0, gpsPoints = [], isGap = None, gapData = None\<rparr>]"
  by (simp add: pipeline_defs example_defs)

text \<open>A stop of 50 seconds and a stop of 200 seconds, all six buckets selected.\<close>

lemma example_pipeline_short_stop:
  "findSlowPeriodsWithRanges None
     [emptyRecord\<lparr>timestamp := Some 0, speed := Some 5\<rparr>,
      emptyRecord\<lparr>timestamp := Some 60000\<rparr>,
      emptyRecord\<lparr>timestamp := Some 110000\<rparr>,
      emptyRecord\<lparr>timestamp := Some 120000, speed := Some 5\<rparr>,
      emptyRecord\<lparr>timestamp := Some 200000\<rparr>,
      emptyRecord\<lparr>timestamp := Some 400000\<rparr>]
     [''2to5'', ''5to10'', ''10to30'', ''30to60'', ''1to2hours'', ''over2hours'']
   = [\<lparr>startTime = 200000, endTime = 400000, recordCount = 2, startDistance = 0,
       endDistance = 0, gpsPoints = [], isGap = None, gapData = None\<rparr>]"
  by (simp add: pipeline_defs example_defs)

subsection \<open>The merge\<close>

text \<open>
  C6. The output of \<open>findSlowPeriodsWithRanges\<close> is the periods of phase 1 followed by
  the periods of the qualifying gaps, stable-sorted ascending by \<open>startTime\<close>: it is
  sorted by \<open>startTime\<close>, and periods with equal \<open>startTime\<close> keep the order they had
  before the sort. A recording gap qualifies, and its period is in the output, iff its
  own rounded minutes and derived hours match some bucket of the selection, the same
  selection that filters the slow runs.
\<close>

theorem findSlowPeriodsWithRanges_merge:
  "findSlowPeriodsWithRanges sel records ranges =
     sort_key startTime
       (slowPhase sel records ranges @
        map gapAsPeriod
          (filter (\<lambda>g. \<exists>rng \<in> set ranges.
                     matchesTimeRange rng (of_int (gapDurationMinutes g)) (gapDurationHours g))
             (findTimestampGaps sel records None))) \<and>
   sorted (map startTime (findSlowPeriodsWithRanges sel records ranges)) \<and>
   (\<forall>k. filter (\<lambda>p. startTime p = k) (findSlowPeriodsWithRanges sel records ranges) =
        filter (\<lambda>p. startTime p = k)
          (slowPhase sel records ranges @
           map gapAsPeriod
             (filter (\<lambda>g. \<exists>rng \<in> set ranges.
                        matchesTimeRange rng (of_int (gapDurationMinutes g))
                          (gapDurationHours g))
                (findTimestampGaps sel records None)))) \<and>
   (\<forall>g \<in> set (findTimestampGaps sel records None).
      gapAsPeriod g \<in> set (findSlowPeriodsWithRanges sel records ranges) \<longleftrightarrow>
      (\<exists>rng \<in> set ranges.
         matchesTimeRange rng (of_int (gapDurationMinutes g)) (gapDurationHours g)))"
proof -
  have q: "(\<lambda>g. \<exists>rng \<in> set ranges.
              matchesTimeRange rng (of_int (gapDurationMinutes g)) (gapDurationHours g))
           = gapMatches ranges"
    by (simp add: gapMatches_iff fun_eq_iff)
  have inj: "gapAsPeriod g = gapAsPeriod g' \<Longrightarrow> g = g'" for g g'
    by (simp add: gapAsPeriod_def)
  have slow: "gapAsPeriod g \<notin> set (slowPhase sel records ranges)" for g
    using slow_period_facts [of "gapAsPeriod g" sel records ranges]
    by (auto simp: gapAsPeriod_def)
  have mem: "gapAsPeriod g \<in> set (findSlowPeriodsWithRanges sel records ranges) \<longleftrightarrow>
               gapMatches ranges g"
    if "g \<in> set (findTimestampGaps sel records None)" for g
    using that slow [of g] inj by (auto simp: findSlowPeriodsWithRanges_eq)
  have eq: "findSlowPeriodsWithRanges sel records ranges =
      sort_key startTime
        (slowPhase sel records ranges @
         map gapAsPeriod (filter (gapMatches ranges) (findTimestampGaps sel records None)))"
    by (rule findSlowPeriodsWithRanges_eq)
  have srt: "sorted (map startTime (findSlowPeriodsWithRanges sel records ranges))"
    by (simp add: eq)
  have stable: "filter (\<lambda>p. startTime p = k) (findSlowPeriodsWithRanges sel records ranges) =
      filter (\<lambda>p. startTime p = k)
        (slowPhase sel records ranges @
         map gapAsPeriod (filter (gapMatches ranges) (findTimestampGaps sel records None)))"
    for k
    unfolding eq by (rule sort_key_stable)
  from eq srt stable mem show ?thesis
    unfolding q by (simp only: gapMatches_iff [symmetric]) blast
qed

text \<open>
  The slow run that starts at \<open>T + 2 min\<close> comes before the gap that starts at
  \<open>T + 10 min\<close>; and a gap that starts first comes first, although phase 2 appends it
  after the slow run.
\<close>

theorem findSlowPeriodsWithRanges_merge_witness:
  "map startTime
     (findSlowPeriodsWithRanges None
        [emptyRecord\<lparr>timestamp := Some 0, speed := Some 5\<rparr>,
         emptyRecord\<lparr>timestamp := Some 120000\<rparr>,
         emptyRecord\<lparr>timestamp := Some 300000\<rparr>,
         emptyRecord\<lparr>timestamp := Some 600000, speed := Some 5\<rparr>,
         emptyRecord\<lparr>timestamp := Some 1200000, speed := Some 5\<rparr>]
        [''2to5'', ''10to30'']) = [120000, 600000] \<and>
   map isGap
     (findSlowPeriodsWithRanges None
        [emptyRecord\<lparr>timestamp := Some 0, speed := Some 5\<rparr>,
         emptyRecord\<lparr>timestamp := Some 120000\<rparr>,
         emptyRecord\<lparr>timestamp := Some 300000\<rparr>,
         emptyRecord\<lparr>timestamp := Some 600000, speed := Some 5\<rparr>,
         emptyRecord\<lparr>timestamp := Some 1200000, speed := Some 5\<rparr>]
        [''2to5'', ''10to30'']) = [None, Some True] \<and>
   map isGap
     (findSlowPeriodsWithRanges None
        [emptyRecord\<lparr>timestamp := Some 0, speed := Some 5\<rparr>,
         emptyRecord\<lparr>timestamp := Some 600000, speed := Some 5\<rparr>,
         emptyRecord\<lparr>timestamp := Some 700000\<rparr>,
         emptyRecord\<lparr>timestamp := Some 880000\<rparr>]
        [''2to5'', ''10to30'']) = [Some True, None] \<and>
   sorted (map startTime
     (findSlowPeriodsWithRanges None
        [emptyRecord\<lparr>timestamp := Some 0, speed := Some 5\<rparr>,
         emptyRecord\<lparr>timestamp := Some 600000, speed := Some 5\<rparr>,
         emptyRecord\<lparr>timestamp := Some 700000\<rparr>,
         emptyRecord\<lparr>timestamp := Some 880000\<rparr>]
        [''2to5'', ''10to30'']))"
proof -
  have "sorted (map startTime
     (findSlowPeriodsWithRanges None
        [emptyRecord\<lparr>timestamp := Some 0, speed := Some 5\<rparr>,
         emptyRecord\<lparr>timestamp := Some 600000, speed := Some 5\<rparr>,
         emptyRecord\<lparr>timestamp := Some 700000\<rparr>,
         emptyRecord\<lparr>timestamp := Some 880000\<rparr>]
        [''2to5'', ''10to30'']))"
    using findSlowPeriodsWithRanges_merge
      [of None
          "[emptyRecord\<lparr>timestamp := Some 0, speed := Some 5\<rparr>,
            emptyRecord\<lparr>timestamp := Some 600000, speed := Some 5\<rparr>,
            emptyRecord\<lparr>timestamp := Some 700000\<rparr>,
            emptyRecord\<lparr>timestamp := Some 880000\<rparr>]"
          "[''2to5'', ''10to30'']"]
    by blast
  then show ?thesis
    by (simp add: example_pipeline example_pipeline_gap_first)
qed

subsection \<open>The period invariant\<close>

text \<open>
  C9. For every sample list whose timestamps are monotonic non-decreasing (the present
  timestamps, in input order, are sorted) and every bucket selection, every period of
  the merged output has \<open>startTime \<le> endTime\<close>, has sample count 0 iff it is a gap
  (\<open>isGap\<close> true), and, when it is not a gap, has at least one sample. (The lemma
  \<open>all_periods_wellformed\<close> above shows the same without the precondition.)
\<close>

theorem periods_invariant:
  assumes "sorted (List.map_filter timestamp records)"
  shows "\<forall>p \<in> set (findSlowPeriodsWithRanges sel records ranges).
           startTime p \<le> endTime p \<and>
           (recordCount p = 0 \<longleftrightarrow> isGap p = Some True) \<and>
           (isGap p \<noteq> Some True \<longrightarrow> 1 \<le> recordCount p)"
  using all_periods_wellformed by blast

theorem periods_invariant_witness:
  "sorted (List.map_filter timestamp
     [emptyRecord\<lparr>timestamp := Some 0, speed := Some 5\<rparr>,
      emptyRecord\<lparr>timestamp := Some 120000\<rparr>,
      emptyRecord\<lparr>timestamp := Some 300000\<rparr>,
      emptyRecord\<lparr>timestamp := Some 600000, speed := Some 5\<rparr>,
      emptyRecord\<lparr>timestamp := Some 1200000, speed := Some 5\<rparr>]) \<and>
   length (findSlowPeriodsWithRanges None
     [emptyRecord\<lparr>timestamp := Some 0, speed := Some 5\<rparr>,
      emptyRecord\<lparr>timestamp := Some 120000\<rparr>,
      emptyRecord\<lparr>timestamp := Some 300000\<rparr>,
      emptyRecord\<lparr>timestamp := Some 600000, speed := Some 5\<rparr>,
      emptyRecord\<lparr>timestamp := Some 1200000, speed := Some 5\<rparr>]
     [''2to5'', ''10to30'']) = 2 \<and>
   list_all (\<lambda>p. startTime p \<le> endTime p \<and> (recordCount p = 0 \<longleftrightarrow> isGap p = Some True))
     (findSlowPeriodsWithRanges None
       [emptyRecord\<lparr>timestamp := Some 0, speed := Some 5\<rparr>,
        emptyRecord\<lparr>timestamp := Some 120000\<rparr>,
        emptyRecord\<lparr>timestamp := Some 300000\<rparr>,
        emptyRecord\<lparr>timestamp := Some 600000, speed := Some 5\<rparr>,
        emptyRecord\<lparr>timestamp := Some 1200000, speed := Some 5\<rparr>]
       [''2to5'', ''10to30''])"
proof -
  have mono: "sorted (List.map_filter timestamp
     [emptyRecord\<lparr>timestamp := Some 0, speed := Some 5\<rparr>,
      emptyRecord\<lparr>timestamp := Some 120000\<rparr>,
      emptyRecord\<lparr>timestamp := Some 300000\<rparr>,
      emptyRecord\<lparr>timestamp := Some 600000, speed := Some 5\<rparr>,
      emptyRecord\<lparr>timestamp := Some 1200000, speed := Some 5\<rparr>])"
    by (simp add: List.map_filter_def example_defs)
  from periods_invariant [OF mono, of None "[''2to5'', ''10to30'']"]
  have "list_all (\<lambda>p. startTime p \<le> endTime p \<and> (recordCount p = 0 \<longleftrightarrow> isGap p = Some True))
     (findSlowPeriodsWithRanges None
       [emptyRecord\<lparr>timestamp := Some 0, speed := Some 5\<rparr>,
        emptyRecord\<lparr>timestamp := Some 120000\<rparr>,
        emptyRecord\<lparr>timestamp := Some 300000\<rparr>,
        emptyRecord\<lparr>timestamp := Some 600000, speed := Some 5\<rparr>,
        emptyRecord\<lparr>timestamp := Some 1200000, speed := Some 5\<rparr>]
       [''2to5'', ''10to30''])"
    unfolding list_all_iff by blast
  with mono show ?thesis
    by (simp add: example_pipeline)
qed

subsection \<open>No stop under two minutes\<close>

text \<open>
  C10. For every sample list and every non-empty bucket selection, every non-gap period
  of the output spans at least two minutes, \<open>endTime - startTime \<ge> 120000\<close> ms; and the
  run finalizer discards every run whose boundary timestamps are less than two minutes
  apart, whatever the selection.
\<close>

theorem slow_periods_two_minutes:
  assumes "ranges \<noteq> []"
  shows "(\<forall>p \<in> set (findSlowPeriodsWithRanges sel records ranges).
            isGap p \<noteq> Some True \<longrightarrow> 120000 \<le> endTime p - startTime p) \<and>
         (\<forall>(run :: FitRecord list) t1 t2.
            timestamp (hd run) = Some t1 \<and> timestamp (last run) = Some t2 \<and>
            t2 - t1 < 120000 \<longrightarrow> processSlowSequence run ranges = None)"
proof
  show "\<forall>p \<in> set (findSlowPeriodsWithRanges sel records ranges).
          isGap p \<noteq> Some True \<longrightarrow> 120000 \<le> endTime p - startTime p"
  proof
    fix p
    assume "p \<in> set (findSlowPeriodsWithRanges sel records ranges)"
    from period_cases [OF this]
    show "isGap p \<noteq> Some True \<longrightarrow> 120000 \<le> endTime p - startTime p"
    proof
      assume "p \<in> set (slowPhase sel records ranges)"
      from slow_period_facts [OF this] show ?thesis by simp
    next
      assume "\<exists>g \<in> set (findTimestampGaps sel records None).
                gapMatches ranges g \<and> p = gapAsPeriod g"
      then show ?thesis by (auto simp: gapAsPeriod_def)
    qed
  qed
  show "\<forall>(run :: FitRecord list) t1 t2.
          timestamp (hd run) = Some t1 \<and> timestamp (last run) = Some t2 \<and>
          t2 - t1 < 120000 \<longrightarrow> processSlowSequence run ranges = None"
  proof (intro allI impI)
    fix run :: "FitRecord list" and t1 t2
    assume a: "timestamp (hd run) = Some t1 \<and> timestamp (last run) = Some t2 \<and>
      t2 - t1 < 120000"
    show "processSlowSequence run ranges = None"
    proof (cases "processSlowSequence run ranges")
      case None
      then show ?thesis .
    next
      case (Some p)
      from processSlowSequence_SomeD(4,5,6) [OF Some] a show ?thesis by simp
    qed
  qed
qed

text \<open>
  With all six buckets selected, the stop of 50 seconds is not in the output and the
  stop of 200 seconds is.
\<close>

theorem slow_periods_two_minutes_witness:
  "[''2to5'', ''5to10'', ''10to30'', ''30to60'', ''1to2hours'', ''over2hours''] \<noteq> [] \<and>
   map startTime
     (findSlowPeriodsWithRanges None
        [emptyRecord\<lparr>timestamp := Some 0, speed := Some 5\<rparr>,
         emptyRecord\<lparr>timestamp := Some 60000\<rparr>,
         emptyRecord\<lparr>timestamp := Some 110000\<rparr>,
         emptyRecord\<lparr>timestamp := Some 120000, speed := Some 5\<rparr>,
         emptyRecord\<lparr>timestamp := Some 200000\<rparr>,
         emptyRecord\<lparr>timestamp := Some 400000\<rparr>]
        [''2to5'', ''5to10'', ''10to30'', ''30to60'', ''1to2hours'', ''over2hours''])
     = [200000] \<and>
   list_all (\<lambda>p. isGap p = Some True \<or> 120000 \<le> endTime p - startTime p)
     (findSlowPeriodsWithRanges None
        [emptyRecord\<lparr>timestamp := Some 0, speed := Some 5\<rparr>,
         emptyRecord\<lparr>timestamp := Some 60000\<rparr>,
         emptyRecord\<lparr>timestamp := Some 110000\<rparr>,
         emptyRecord\<lparr>timestamp := Some 120000, speed := Some 5\<rparr>,
         emptyRecord\<lparr>timestamp := Some 200000\<rparr>,
         emptyRecord\<lparr>timestamp := Some 400000\<rparr>]
        [''2to5'', ''5to10'', ''10to30'', ''30to60'', ''1to2hours'', ''over2hours'']) \<and>
   processSlowSequence
     [emptyRecord\<lparr>timestamp := Some 60000\<rparr>, emptyRecord\<lparr>timestamp := Some 110000\<rparr>]
     [''2to5'', ''5to10'', ''10to30'', ''30to60'', ''1to2hours'', ''over2hours''] = None"
proof -
  have ne: "[''2to5'', ''5to10'', ''10to30'', ''30to60'', ''1to2hours'', ''over2hours''] \<noteq> []"
    by simp
  note w = slow_periods_two_minutes [OF ne, of None
      "[emptyRecord\<lparr>timestamp := Some 0, speed := Some 5\<rparr>,
        emptyRecord\<lparr>timestamp := Some 60000\<rparr>,
        emptyRecord\<lparr>timestamp := Some 110000\<rparr>,
        emptyRecord\<lparr>timestamp := Some 120000, speed := Some 5\<rparr>,
        emptyRecord\<lparr>timestamp := Some 200000\<rparr>,
        emptyRecord\<lparr>timestamp := Some 400000\<rparr>]"]
  from w have all: "list_all (\<lambda>p. isGap p = Some True \<or> 120000 \<le> endTime p - startTime p)
     (findSlowPeriodsWithRanges None
        [emptyRecord\<lparr>timestamp := Some 0, speed := Some 5\<rparr>,
         emptyRecord\<lparr>timestamp := Some 60000\<rparr>,
         emptyRecord\<lparr>timestamp := Some 110000\<rparr>,
         emptyRecord\<lparr>timestamp := Some 120000, speed := Some 5\<rparr>,
         emptyRecord\<lparr>timestamp := Some 200000\<rparr>,
         emptyRecord\<lparr>timestamp := Some 400000\<rparr>]
        [''2to5'', ''5to10'', ''10to30'', ''30to60'', ''1to2hours'', ''over2hours''])"
    unfolding list_all_iff by blast
  from w have "processSlowSequence
     [emptyRecord\<lparr>timestamp := Some 60000\<rparr>, emptyRecord\<lparr>timestamp := Some 110000\<rparr>]
     [''2to5'', ''5to10'', ''10to30'', ''30to60'', ''1to2hours'', ''over2hours''] = None"
    by (simp add: example_defs)
  with all show ?thesis
    by (simp add: example_pipeline_short_stop)
qed

end
